theory Spec2Isabelle
  imports Complex_Main
begin

section \<open>JavaScript values\<close>

text \<open>
  The classifier of \<^verbatim>\<open>src/ai.ts\<close> works on the untyped result of \<^verbatim>\<open>JSON.parse\<close>, so the
  development starts with the values of the language. A number is a finite value, one of
  the two infinities, or NaN; finite values are kept as exact rationals (the value that
  the literal denotes), so rounding to a double is not part of the model. A string is a
  \<^typ>\<open>string\<close>, one character for each code unit. An object is a table from property
  names to values; the order of its properties is not kept. A property whose value is
  \<^verbatim>\<open>undefined\<close> is different from a property that is absent.
\<close>

datatype number = NaN | NegInfinity | Finite rat | PosInfinity

datatype jsval =
    JUndefined
  | JNull
  | JBool bool
  | JNum number
  | JStr string
  | JArr "jsval list"
  | JObj "string \<Rightarrow> jsval option"

datatype js_error =
    TypeError
  | SyntaxError
  | Error string
  | Rejected string

text \<open>
  \<^verbatim>\<open>TypeError\<close> and \<^verbatim>\<open>SyntaxError\<close> are the errors of the language, \<open>Error m\<close> is
  \<^verbatim>\<open>new Error(m)\<close> of the source, and \<open>Rejected m\<close> is a failure of the call to the model
  binding (transport failure, timeout, cancellation). A computation that may throw returns
  \<open>js_error + 'a\<close>.
\<close>

definition bind_err :: "js_error + 'a \<Rightarrow> ('a \<Rightarrow> js_error + 'b) \<Rightarrow> js_error + 'b" where
  "bind_err x f = (case x of Inl e \<Rightarrow> Inl e | Inr v \<Rightarrow> f v)"

text \<open>
  The relational operators of the language on numbers: a comparison with NaN on either
  side is false.
\<close>

fun num_le :: "number \<Rightarrow> number \<Rightarrow> bool" where
  "num_le NaN y = False"
| "num_le x NaN = False"
| "num_le NegInfinity y = True"
| "num_le x PosInfinity = True"
| "num_le (Finite a) (Finite b) = (a \<le> b)"
| "num_le x y = False"

text \<open>
  Three operations of the language are not code of this repository and are taken as
  parameters, so that every statement below holds whatever they return:
  \<^item> \<open>JSON_parse\<close> is \<^verbatim>\<open>JSON.parse\<close>; \<open>None\<close> stands for the SyntaxError it throws;
  \<^item> \<open>ToNumber_other\<close> is the conversion to a number of a string, an array or an object
    (StringToNumber and OrdinaryToPrimitive), which may throw a TypeError;
  \<^item> \<open>Number_toString\<close> is the conversion of a number to a string in a template literal.
\<close>

record runtime =
  JSON_parse :: "string \<Rightarrow> jsval option"
  ToNumber_other :: "jsval \<Rightarrow> js_error + number"
  Number_toString :: "number \<Rightarrow> string"

text \<open>
  Reading a property. The names that the source reads (\<^verbatim>\<open>classification\<close>, \<^verbatim>\<open>urgency\<close>,
  \<^verbatim>\<open>signals\<close>, ...) are defined on no built-in prototype and are neither an index nor
  \<^verbatim>\<open>length\<close>, so on a boolean, a number, a string or an array they read \<^verbatim>\<open>undefined\<close>;
  on \<^verbatim>\<open>undefined\<close> and \<^verbatim>\<open>null\<close> the access throws.
\<close>

fun get_prop :: "jsval \<Rightarrow> string \<Rightarrow> js_error + jsval" where
  "get_prop JUndefined k = Inl TypeError"
| "get_prop JNull k = Inl TypeError"
| "get_prop (JObj m) k = Inr (case m k of None \<Rightarrow> JUndefined | Some v \<Rightarrow> v)"
| "get_prop v k = Inr JUndefined"

fun truthy :: "jsval \<Rightarrow> bool" where
  "truthy JUndefined = False"
| "truthy JNull = False"
| "truthy (JBool b) = b"
| "truthy (JNum NaN) = False"
| "truthy (JNum (Finite x)) = (x \<noteq> 0)"
| "truthy (JNum n) = True"
| "truthy (JStr s) = (s \<noteq> [])"
| "truthy (JArr xs) = True"
| "truthy (JObj m) = True"

fun typeof :: "jsval \<Rightarrow> string" where
  "typeof JUndefined = ''undefined''"
| "typeof JNull = ''object''"
| "typeof (JBool b) = ''boolean''"
| "typeof (JNum n) = ''number''"
| "typeof (JStr s) = ''string''"
| "typeof (JArr xs) = ''object''"
| "typeof (JObj m) = ''object''"

fun ToNumber :: "runtime \<Rightarrow> jsval \<Rightarrow> js_error + number" where
  "ToNumber rt JUndefined = Inr NaN"
| "ToNumber rt JNull = Inr (Finite 0)"
| "ToNumber rt (JBool b) = Inr (Finite (if b then 1 else 0))"
| "ToNumber rt (JNum n) = Inr n"
| "ToNumber rt v = ToNumber_other rt v"

text \<open>
  \<^verbatim>\<open>a >= b\<close> and \<^verbatim>\<open>a <= b\<close> where \<open>b\<close> is a number: \<open>a\<close> is converted to a number and
  the numbers are compared.
\<close>

definition js_ge :: "runtime \<Rightarrow> jsval \<Rightarrow> number \<Rightarrow> js_error + bool" where
  "js_ge rt a b = bind_err (ToNumber rt a) (\<lambda>x. Inr (num_le b x))"

definition js_le :: "runtime \<Rightarrow> jsval \<Rightarrow> number \<Rightarrow> js_error + bool" where
  "js_le rt a b = bind_err (ToNumber rt a) (\<lambda>x. Inr (num_le x b))"

text \<open>\<^verbatim>\<open>x && y\<close> on two comparisons: \<open>y\<close> is evaluated only when \<open>x\<close> is true.\<close>

definition js_and :: "js_error + bool \<Rightarrow> js_error + bool \<Rightarrow> js_error + bool" where
  "js_and x y = bind_err x (\<lambda>b. if b then y else Inr False)"

text \<open>\<^verbatim>\<open>Array.prototype.join\<close> on an array of strings.\<close>

fun join :: "string \<Rightarrow> string list \<Rightarrow> string" where
  "join sep [] = []"
| "join sep [x] = x"
| "join sep (x # xs) = x @ sep @ join sep xs"

section \<open>The rule configuration\<close>

text \<open>
  The interface \<^verbatim>\<open>ClassificationRules\<close> of \<^verbatim>\<open>src/kv.ts\<close>: a complete configuration,
  every threshold a number and every keyword list an array of strings.
\<close>

record ImmediateEngineering =
  urgency_min :: number
  impact_min :: number

record QuickWinBacklog =
  urgency_max :: number
  actionability_min :: number

record TrustRisk =
  sentiment_max :: number
  impact_min :: number

record RoutingRules =
  immediate_engineering :: ImmediateEngineering
  quick_win_backlog :: QuickWinBacklog
  trust_risk :: TrustRisk

record UrgencyKeywords =
  critical :: "string list"
  high :: "string list"
  low :: "string list"

record ImpactSignals =
  enterprise :: "string list"
  production :: "string list"
  single_user :: "string list"

record ClassificationRules =
  routing_rules :: RoutingRules
  urgency_keywords :: UrgencyKeywords
  impact_signals :: ImpactSignals

section \<open>The rule engine\<close>

text \<open>
  \<^verbatim>\<open>FeedbackClassifier.determineRoute\<close>. The argument \<open>classification\<close> is the value that
  the caller passes, which is not checked against the declared type at run time.
\<close>

definition determineRoute :: "runtime \<Rightarrow> jsval \<Rightarrow> ClassificationRules \<Rightarrow> js_error + string" where
  "determineRoute rt classification rules =
     bind_err
       (js_and
          (bind_err (get_prop classification ''urgency'')
             (\<lambda>u. js_ge rt u (urgency_min (immediate_engineering (routing_rules rules)))))
          (bind_err (get_prop classification ''impact'')
             (\<lambda>i. js_ge rt i (ImmediateEngineering.impact_min (immediate_engineering (routing_rules rules))))))
       (\<lambda>immediate.
     bind_err
       (js_and
          (bind_err (get_prop classification ''urgency'')
             (\<lambda>u. js_le rt u (urgency_max (quick_win_backlog (routing_rules rules)))))
          (bind_err (get_prop classification ''actionability'')
             (\<lambda>a. js_ge rt a (actionability_min (quick_win_backlog (routing_rules rules))))))
       (\<lambda>quick.
     bind_err
       (js_and
          (bind_err (get_prop classification ''sentiment'')
             (\<lambda>s. js_le rt s (sentiment_max (trust_risk (routing_rules rules)))))
          (bind_err (get_prop classification ''impact'')
             (\<lambda>i. js_ge rt i (TrustRisk.impact_min (trust_risk (routing_rules rules))))))
       (\<lambda>trust.
          let routes = (if immediate then [''immediate_engineering''] else [])
                     @ (if quick then [''quick_win_backlog''] else [])
                     @ (if trust then [''trust_risk''] else [])
          in Inr (if length routes > 0 then join '','' routes else ''standard_backlog''))))"


section \<open>Feedback items and the model binding\<close>

text \<open>
  The interface \<^verbatim>\<open>Feedback\<close> of \<^verbatim>\<open>src/db.ts\<close>; the field \<^verbatim>\<open>id\<close> is \<open>id'\<close> here. An
  optional field that is absent, \<^verbatim>\<open>undefined\<close> or \<^verbatim>\<open>null\<close> is \<open>None\<close>.
\<close>

record Feedback =
  id' :: string
  source :: string
  title :: string
  content :: string
  label :: "string option"
  author :: "string option"
  created_at :: string
  raw_metadata :: "string option"

text \<open>
  The binding \<^verbatim>\<open>Ai\<close>: \<open>ai model messages\<close> is the \<^verbatim>\<open>response\<close> property of the
  object that \<^verbatim>\<open>await ai.run(model, {messages})\<close> gives, a string, or the error with
  which the call fails. A message is the pair of its role and its content.
\<close>

type_synonym message = "string \<times> string"

type_synonym Ai = "string \<Rightarrow> message list \<Rightarrow> js_error + string"

text \<open>\<^verbatim>\<open>x || d\<close> for an optional string \<open>x\<close>: the empty string is falsy too.\<close>

definition or_else :: "string option \<Rightarrow> string \<Rightarrow> string" where
  "or_else x d = (case x of None \<Rightarrow> d | Some v \<Rightarrow> if v = [] then d else v)"

definition newline :: string where
  "newline = [CHR 0x0A]"

section \<open>The classification prompt\<close>

text \<open>\<^verbatim>\<open>FeedbackClassifier.buildClassificationPrompt\<close>: the template literal, line by line.\<close>

definition buildClassificationPrompt :: "Feedback \<Rightarrow> ClassificationRules \<Rightarrow> string" where
  \<open>buildClassificationPrompt feedback rules =
     join newline
       ['''',
        ''Analyze this feedback and classify it according to our framework.'',
        '''',
        ''## Feedback'',
        ''- **Source**: '' @ source feedback,
        ''- **Title**: '' @ title feedback,
        ''- **Label**: '' @ or_else (label feedback) ''None'',
        ''- **Content**: '' @ content feedback,
        '''',
        ''## Classification Framework'',
        '''',
        ''### Urgency (1-5)'',
        ''- 1: Low - General questions, nice-to-haves'',
        ''- 2: Moderate - Minor friction, workarounds exist'',
        ''- 3: High - Functionality degraded, needs attention'',
        ''- 4: Severe - Production affected, no workaround (even if reported calmly)'',
        ''- 5: Critical - Security risk, installation blocked, complete outage'',
        '''',
        ''**Critical keywords**: '' @ join '', '' (critical (urgency_keywords rules)),
        ''**High keywords**: '' @ join '', '' (high (urgency_keywords rules)),
        ''**Low keywords**: '' @ join '', '' (low (urgency_keywords rules)),
        '''',
        ''IMPORTANT: Security concerns should be minimum Urgency 3. Installation failures should be minimum Urgency 4. Calm tone does NOT reduce urgency - score based on technical severity.'',
        '''',
        ''### Sentiment (-2 to +2)'',
        ''- -2: Frustrated (explicit frustration, strong negative language, ALL CAPS, "ridiculous", "unacceptable")'',
        ''- -1: Dissatisfied (pain points, mild complaints, "a pain", "frustrating")'',
        ''- 0: Neutral (factual reporting, no emotional indicators)'',
        ''- +1: Appreciative (thanks, acknowledges good work, "great product")'',
        ''- +2: Enthusiastic (strong praise, advocacy)'',
        '''',
        ''### Impact (1-5)'',
        ''- 1: Minimal - Single user curiosity'',
        ''- 2: Low - Individual inconvenience, easy workaround'',
        ''- 3: Moderate - Team/environment affected, painful workaround'',
        ''- 4: High - Production degraded, enterprise environment, blocks adoption'',
        ''- 5: Severe - Complete breakage, affects all users, security/data risk'',
        '''',
        ''**Enterprise signals**: '' @ join '', '' (enterprise (impact_signals rules)),
        ''**Production signals**: '' @ join '', '' (production (impact_signals rules)),
        ''**Single user signals**: '' @ join '', '' (single_user (impact_signals rules)),
        '''',
        ''### Actionability (1-5)'',
        ''- 1: Unclear - Vague, missing context'',
        ''- 2: Needs Info - Some detail but requires follow-up'',
        ''- 3: Partially Actionable - Clear problem, uncertain solution'',
        ''- 4: Actionable - Clear problem + environment + steps'',
        ''- 5: Immediately Actionable - Clear bug with repro steps, obvious fix path'',
        '''',
        ''## Response Format'',
        ''Return ONLY valid JSON (no markdown, no explanation):'',
        ''{'',
        ''  "classification": {'',
        ''    "urgency": <1-5>,'',
        ''    "sentiment": <-2 to 2>,'',
        ''    "impact": <1-5>,'',
        ''    "actionability": <1-5>'',
        ''  },'',
        ''  "signals": ['',
        ''    {"signal_type": "feature_area", "signal_value": "<area like tunnels, installation, authentication>", "confidence": <0-1>},'',
        ''    {"signal_type": "user_segment", "signal_value": "<segment like enterprise, hobbyist, developer>", "confidence": <0-1>},'',
        ''    {"signal_type": "issue_category", "signal_value": "<category like bug, feature_request, question, documentation>", "confidence": <0-1>}'',
        ''  ],'',
        ''  "confidence": <0-1>,'',
        ''  "reasoning": "<1-2 sentence explanation of scores>"'',
        ''}'',
        '''']\<close>

definition classification_system_prompt :: string where
  \<open>classification_system_prompt =
     ''You are a product analyst for cloudflare/cloudflared, an infrastructure tool where reliability and security are critical. Analyze user feedback and return structured JSON only. No explanations outside the JSON.''\<close>

section \<open>Parsing the response\<close>

text \<open>
  \<^verbatim>\<open>text.match(/\{[\s\S]*\}/)\<close> and \<^verbatim>\<open>text.match(/\[[\s\S]*\]/)\<close>, as the matcher runs
  them. \<open>match_tail cl cs\<close> matches \<^verbatim>\<open>[\s\S]*\<close> followed by the closing character
  against a prefix of \<open>cs\<close>: the star first takes one more character and gives it back
  only when the rest does not match. \<open>regex_match op cl text\<close> tries the start positions
  from left to right and returns the matched substring (element 0 of the match), or
  \<open>None\<close> for \<^verbatim>\<open>null\<close>.
\<close>

fun match_tail :: "char \<Rightarrow> string \<Rightarrow> string option" where
  "match_tail cl [] = None"
| "match_tail cl (c # cs) =
     (case match_tail cl cs of
        Some m \<Rightarrow> Some (c # m)
      | None \<Rightarrow> if c = cl then Some [c] else None)"

fun regex_match :: "char \<Rightarrow> char \<Rightarrow> string \<Rightarrow> string option" where
  "regex_match op cl [] = None"
| "regex_match op cl (c # cs) =
     (if c = op
      then (case match_tail cl cs of
              Some m \<Rightarrow> Some (c # m)
            | None \<Rightarrow> regex_match op cl cs)
      else regex_match op cl cs)"

definition match_object :: "string \<Rightarrow> string option" where
  "match_object text = regex_match (CHR ''{'') (CHR ''}'') text"

definition match_array :: "string \<Rightarrow> string option" where
  "match_array text = regex_match (CHR ''['') (CHR '']'') text"

text \<open>The value that \<^verbatim>\<open>parseAIResponse\<close> returns from its \<^verbatim>\<open>catch\<close> block.\<close>

definition conservative_default :: jsval where
  "conservative_default =
     JObj [''classification'' \<mapsto>
             JObj [''urgency'' \<mapsto> JNum (Finite 3),
                   ''sentiment'' \<mapsto> JNum (Finite 0),
                   ''impact'' \<mapsto> JNum (Finite 3),
                   ''actionability'' \<mapsto> JNum (Finite 2)],
           ''signals'' \<mapsto> JArr [],
           ''confidence'' \<mapsto> JNum (Finite (3 / 10)),
           ''reasoning'' \<mapsto> JStr ''Failed to parse AI response, using conservative defaults'']"

text \<open>
  \<^verbatim>\<open>FeedbackClassifier.parseAIResponse\<close>. \<open>parseAIResponse_try\<close> is the body of the
  \<^verbatim>\<open>try\<close> block; every error it throws is caught. The line that the \<^verbatim>\<open>catch\<close> block
  writes to the console is not part of the value returned and is left out.
\<close>

definition parseAIResponse_try :: "runtime \<Rightarrow> string \<Rightarrow> js_error + jsval" where
  "parseAIResponse_try rt response =
     (case match_object response of
        None \<Rightarrow> Inl (Error ''No JSON found in response'')
      | Some jsonMatch \<Rightarrow>
          (case JSON_parse rt jsonMatch of
             None \<Rightarrow> Inl SyntaxError
           | Some parsed \<Rightarrow>
               bind_err (get_prop parsed ''classification'') (\<lambda>c.
                 if \<not> truthy c then Inl (Error ''Invalid classification structure'')
                 else bind_err (get_prop c ''urgency'') (\<lambda>u.
                   if typeof u \<noteq> ''number''
                   then Inl (Error ''Invalid classification structure'')
                   else Inr parsed))))"

definition parseAIResponse :: "runtime \<Rightarrow> string \<Rightarrow> jsval" where
  "parseAIResponse rt response =
     (case parseAIResponse_try rt response of
        Inr parsed \<Rightarrow> parsed
      | Inl e \<Rightarrow> conservative_default)"

section \<open>Assembling the result\<close>

text \<open>The decimal name of an array index.\<close>

fun index_key :: "nat \<Rightarrow> string" where
  "index_key n =
     (if n < 10 then [char_of (48 + n)]
      else index_key (n div 10) @ [char_of (48 + n mod 10)])"

declare index_key.simps [simp del]

text \<open>
  The own enumerable properties that the spread \<^verbatim>\<open>...v\<close> copies into an object literal:
  the properties of an object, the elements of an array and the code units of a string
  under their indices, nothing for the other values.
\<close>

fun own_properties :: "jsval \<Rightarrow> string \<Rightarrow> jsval option" where
  "own_properties (JObj m) = m"
| "own_properties (JArr xs) = map_of (zip (map index_key [0..<length xs]) xs)"
| "own_properties (JStr s) = map_of (zip (map index_key [0..<length s]) (map (\<lambda>c. JStr [c]) s))"
| "own_properties v = Map.empty"

text \<open>
  \<^verbatim>\<open>v.map(f)\<close>: only an array has the method. On \<^verbatim>\<open>undefined\<close> and \<^verbatim>\<open>null\<close> the access
  throws, on every other value the property \<^verbatim>\<open>map\<close> is not a function.
\<close>

fun js_map :: "(jsval \<Rightarrow> jsval) \<Rightarrow> jsval \<Rightarrow> js_error + jsval list" where
  "js_map f (JArr xs) = Inr (map f xs)"
| "js_map f v = Inl TypeError"

record ClassifyResult =
  classification :: jsval
  signals :: "jsval list"

text \<open>
  \<^verbatim>\<open>FeedbackClassifier.classifyFeedback\<close>. \<open>assemble_result\<close> is the part of the method
  after the call of \<^verbatim>\<open>parseAIResponse\<close>: the route and the object returned, on the
  value \<open>result\<close> that the parser gave.
\<close>

definition assemble_result :: "runtime \<Rightarrow> Feedback \<Rightarrow> ClassificationRules \<Rightarrow> jsval \<Rightarrow> js_error + ClassifyResult" where
  "assemble_result rt feedback rules result =
     bind_err (get_prop result ''classification'') (\<lambda>result_classification.
     bind_err (determineRoute rt result_classification rules) (\<lambda>route.
     bind_err (get_prop result ''confidence'') (\<lambda>result_confidence.
     bind_err (get_prop result ''reasoning'') (\<lambda>result_reasoning.
     bind_err (get_prop result ''signals'') (\<lambda>result_signals.
     bind_err (js_map (\<lambda>s. JObj ([''feedback_id'' \<mapsto> JStr (id' feedback)] ++ own_properties s))
                 result_signals) (\<lambda>mapped.
       Inr \<lparr> classification =
               JObj (([''feedback_id'' \<mapsto> JStr (id' feedback)] ++ own_properties result_classification)
                     (''route'' \<mapsto> JStr route,
                      ''confidence'' \<mapsto> result_confidence,
                      ''reasoning'' \<mapsto> result_reasoning)),
             signals = mapped \<rparr>))))))"

definition classifyFeedback :: "runtime \<Rightarrow> Ai \<Rightarrow> Feedback \<Rightarrow> ClassificationRules \<Rightarrow> js_error + ClassifyResult" where
  "classifyFeedback rt ai feedback rules =
     (let prompt = buildClassificationPrompt feedback rules in
      bind_err (ai ''@cf/meta/llama-3.1-70b-instruct''
                  [(''system'', classification_system_prompt), (''user'', prompt)]) (\<lambda>response.
        let result = parseAIResponse rt response in
        assemble_result rt feedback rules result))"

section \<open>Theme extraction\<close>

text \<open>
  \<^verbatim>\<open>FeedbackClassifier.extractThemes\<close>. \<open>limit_arg\<close> is \<open>None\<close> when the caller leaves
  the argument out, and the default 5 is taken. \<open>themes_prompt\<close> is the template literal
  \<^verbatim>\<open>prompt\<close> of the method with the \<^verbatim>\<open>feedbackSummary\<close> it embeds. The value returned is
  whatever \<^verbatim>\<open>JSON.parse\<close> gives for the matched text.
\<close>

definition themes_prompt :: "runtime \<Rightarrow> Feedback list \<Rightarrow> number \<Rightarrow> string" where
  \<open>themes_prompt rt feedbackItems limit =
     (let feedbackSummary =
            join newline
              (map (\<lambda>f. ''- '' @ title f @ '': '' @ take 200 (content f))
                 (take 20 feedbackItems))
      in join newline
       ['''',
        ''Analyze these feedback items and extract the '' @ Number_toString rt limit @ '' most common themes or topics.'',
        '''',
        ''Feedback:'',
        feedbackSummary,
        '''',
        ''Return ONLY a JSON array of theme strings, e.g.: ["theme1", "theme2", "theme3"]'',
        ''''])\<close>

definition extractThemes :: "runtime \<Rightarrow> Ai \<Rightarrow> Feedback list \<Rightarrow> number option \<Rightarrow> js_error + jsval" where
  \<open>extractThemes rt ai feedbackItems limit_arg =
     (let limit = (case limit_arg of None \<Rightarrow> Finite 5 | Some n \<Rightarrow> n) in
      if length feedbackItems = 0 then Inr (JArr [])
      else
        let prompt = themes_prompt rt feedbackItems limit in
        bind_err (ai ''@cf/meta/llama-3.1-8b-instruct''
                    [(''system'', ''Extract themes from feedback. Return only JSON array.''),
                     (''user'', prompt)]) (\<lambda>response.
          case match_array response of
            Some m \<Rightarrow>
              (case JSON_parse rt m of
                 Some themes \<Rightarrow> Inr themes
               | None \<Rightarrow> Inr (JArr []))
          | None \<Rightarrow> Inr (JArr [])))\<close>

section \<open>The default configuration\<close>

text \<open>\<^verbatim>\<open>defaultRules\<close> of \<^verbatim>\<open>ConfigStore.getClassificationRules\<close> in \<^verbatim>\<open>src/kv.ts\<close>.\<close>

definition defaultRules :: ClassificationRules where
  "defaultRules =
     \<lparr> routing_rules =
         \<lparr> immediate_engineering = \<lparr> urgency_min = Finite 4, impact_min = Finite 4 \<rparr>,
           quick_win_backlog = \<lparr> urgency_max = Finite 2, actionability_min = Finite 4 \<rparr>,
           trust_risk = \<lparr> sentiment_max = Finite (- 1), impact_min = Finite 3 \<rparr> \<rparr>,
       urgency_keywords =
         \<lparr> critical = [''security'', ''vulnerability'', ''cannot install'', ''data loss'',
                       ''outage'', ''production down'', ''breach'', ''exploit''],
           high = [''production'', ''enterprise'', ''fails consistently'', ''no workaround'',
                   ''blocked'', ''critical'', ''urgent'', ''forever'', ''never recovers''],
           low = [''feature request'', ''nice to have'', ''suggestion'', ''question'',
                  ''wondering'', ''curious'', ''would be nice''] \<rparr>,
       impact_signals =
         \<lparr> enterprise = [''our organization'', ''our team'', ''enterprise'', ''active directory'',
                         ''domain-joined'', ''cluster'', ''our company'', ''multiple users''],
           production = [''production'', ''live'', ''customers affected'', ''revenue'', ''sla'',
                         ''downtime'', ''outage''],
           single_user = [''my home'', ''personal'', ''hobby'', ''just me'', ''learning'',
                          ''testing'', ''playing around''] \<rparr> \<rparr>"

section \<open>The specification's reading of the rule engine\<close>

text \<open>
  A classification vector is four numbers; \<open>vector_object\<close> is the object that carries
  them. The three predicates and the route are written here as the specification words
  them: each predicate contributes its label when it holds, the labels are joined with
  commas in the fixed order, and \<^verbatim>\<open>standard_backlog\<close> stands for no label.
\<close>

record ClassificationVector =
  urgency :: number
  sentiment :: number
  impact :: number
  actionability :: number

definition vector_object :: "ClassificationVector \<Rightarrow> jsval" where
  "vector_object v =
     JObj [''urgency'' \<mapsto> JNum (urgency v),
           ''sentiment'' \<mapsto> JNum (sentiment v),
           ''impact'' \<mapsto> JNum (impact v),
           ''actionability'' \<mapsto> JNum (actionability v)]"

definition is_immediate_engineering :: "ClassificationVector \<Rightarrow> ClassificationRules \<Rightarrow> bool" where
  "is_immediate_engineering v rules =
     (num_le (urgency_min (immediate_engineering (routing_rules rules))) (urgency v) \<and>
      num_le (ImmediateEngineering.impact_min (immediate_engineering (routing_rules rules))) (impact v))"

definition is_quick_win_backlog :: "ClassificationVector \<Rightarrow> ClassificationRules \<Rightarrow> bool" where
  "is_quick_win_backlog v rules =
     (num_le (urgency v) (urgency_max (quick_win_backlog (routing_rules rules))) \<and>
      num_le (actionability_min (quick_win_backlog (routing_rules rules))) (actionability v))"

definition is_trust_risk :: "ClassificationVector \<Rightarrow> ClassificationRules \<Rightarrow> bool" where
  "is_trust_risk v rules =
     (num_le (sentiment v) (sentiment_max (trust_risk (routing_rules rules))) \<and>
      num_le (TrustRisk.impact_min (trust_risk (routing_rules rules))) (impact v))"

definition matched_labels :: "ClassificationVector \<Rightarrow> ClassificationRules \<Rightarrow> string list" where
  "matched_labels v rules =
     map fst (filter snd
       [(''immediate_engineering'', is_immediate_engineering v rules),
        (''quick_win_backlog'', is_quick_win_backlog v rules),
        (''trust_risk'', is_trust_risk v rules)])"

definition route_of_labels :: "string list \<Rightarrow> string" where
  "route_of_labels ls = (if ls = [] then ''standard_backlog'' else join '','' ls)"

section \<open>The specification's reading of extraction and validation\<close>

text \<open>
  The substring from the first opening character to the last closing character, when
  the last closing character comes after the first opening one.
\<close>

definition first_index :: "char \<Rightarrow> string \<Rightarrow> nat option" where
  "first_index c text =
     (if c \<in> set text then Some (length (takeWhile (\<lambda>x. x \<noteq> c) text)) else None)"

definition last_index :: "char \<Rightarrow> string \<Rightarrow> nat option" where
  "last_index c text =
     (if c \<in> set text
      then Some (length text - 1 - length (takeWhile (\<lambda>x. x \<noteq> c) (rev text)))
      else None)"

definition first_to_last :: "char \<Rightarrow> char \<Rightarrow> string \<Rightarrow> string option" where
  "first_to_last op cl text =
     (case first_index op text of
        None \<Rightarrow> None
      | Some i \<Rightarrow>
          (case last_index cl text of
             None \<Rightarrow> None
           | Some j \<Rightarrow> if i < j then Some (take (j + 1 - i) (drop i text)) else None))"

text \<open>
  A parsed value is valid when it contains a \<^verbatim>\<open>classification\<close> object whose
  \<^verbatim>\<open>urgency\<close> field is a number.
\<close>

definition has_numeric_urgency :: "jsval \<Rightarrow> bool" where
  "has_numeric_urgency parsed =
     (case parsed of
        JObj p \<Rightarrow>
          (case p ''classification'' of
             Some (JObj c) \<Rightarrow> (case c ''urgency'' of Some (JNum n) \<Rightarrow> True | _ \<Rightarrow> False)
           | _ \<Rightarrow> False)
      | _ \<Rightarrow> False)"

text \<open>
  The value extracted from a response text: the matched substring, parsed. \<open>None\<close> when
  nothing matches or the match does not parse.
\<close>

definition extracted_value :: "runtime \<Rightarrow> string \<Rightarrow> jsval option" where
  "extracted_value rt response =
     (case match_object response of None \<Rightarrow> None | Some js \<Rightarrow> JSON_parse rt js)"

text \<open>The messages that \<^verbatim>\<open>classifyFeedback\<close> sends.\<close>

definition classification_messages :: "Feedback \<Rightarrow> ClassificationRules \<Rightarrow> message list" where
  "classification_messages feedback rules =
     [(''system'', classification_system_prompt),
      (''user'', buildClassificationPrompt feedback rules)]"


text \<open>The messages that \<^verbatim>\<open>extractThemes\<close> sends for a non-empty list of items.\<close>

definition themes_messages :: "runtime \<Rightarrow> Feedback list \<Rightarrow> number option \<Rightarrow> message list" where
  "themes_messages rt feedbackItems limit_arg =
     [(''system'', ''Extract themes from feedback. Return only JSON array.''),
      (''user'', themes_prompt rt feedbackItems
                   (case limit_arg of None \<Rightarrow> Finite 5 | Some n \<Rightarrow> n))]"

text \<open>An item cut to the first 200 characters of its content.\<close>

definition cut_content :: "Feedback \<Rightarrow> Feedback" where
  "cut_content f = f\<lparr> content := take 200 (content f) \<rparr>"

text \<open>The vector of the conservative default.\<close>

definition fallback_vector :: ClassificationVector where
  "fallback_vector =
     \<lparr> urgency = Finite 3, sentiment = Finite 0, impact = Finite 3, actionability = Finite 2 \<rparr>"

section \<open>Concrete inputs\<close>

text \<open>
  The inputs on which the statements below are run. \<open>stub_ai\<close> answers every call with
  the given text, \<open>failing_ai\<close> fails every call. \<open>example_feedback\<close> is the item
  \<^verbatim>\<open>gh-005\<close> of \<^verbatim>\<open>getSampleCloudflaredData\<close> with a fixed time stamp.
\<close>

definition stub_ai :: "string \<Rightarrow> Ai" where
  "stub_ai response = (\<lambda>model messages. Inr response)"

definition failing_ai :: "js_error \<Rightarrow> Ai" where
  "failing_ai e = (\<lambda>model messages. Inl e)"

definition example_feedback :: Feedback where
  "example_feedback =
     \<lparr> id' = ''gh-005'',
       source = ''github'',
       title = ''Please publish containers also on ghcr inside this repo'',
       content = ''Please also publish the container images to ghcr it is for free and not have any pull limits like docker.io which are a pain'',
       label = Some ''Feature Request'',
       author = Some ''devops-user'',
       created_at = ''2026-01-01T00:00:00.000Z'',
       raw_metadata = None \<rparr>"

text \<open>Seven JSON texts and the values that \<^verbatim>\<open>JSON.parse\<close> gives for them.\<close>

definition json_round_trip :: string where
  \<open>json_round_trip =
     ''{"classification": {"urgency": 5, "sentiment": -2, "impact": 5, "actionability": 3}, "signals": [{"signal_type": "feature_area", "signal_value": "tunnels", "confidence": 0.8}, {"signal_type": "issue_category", "signal_value": "bug", "confidence": 0.7}], "confidence": 0.9, "reasoning": "text"}''\<close>

definition value_round_trip :: jsval where
  "value_round_trip =
     JObj [''classification'' \<mapsto>
             JObj [''urgency'' \<mapsto> JNum (Finite 5),
                   ''sentiment'' \<mapsto> JNum (Finite (- 2)),
                   ''impact'' \<mapsto> JNum (Finite 5),
                   ''actionability'' \<mapsto> JNum (Finite 3)],
           ''signals'' \<mapsto>
             JArr [JObj [''signal_type'' \<mapsto> JStr ''feature_area'',
                         ''signal_value'' \<mapsto> JStr ''tunnels'',
                         ''confidence'' \<mapsto> JNum (Finite (8 / 10))],
                   JObj [''signal_type'' \<mapsto> JStr ''issue_category'',
                         ''signal_value'' \<mapsto> JStr ''bug'',
                         ''confidence'' \<mapsto> JNum (Finite (7 / 10))]],
           ''confidence'' \<mapsto> JNum (Finite (9 / 10)),
           ''reasoning'' \<mapsto> JStr ''text'']"

definition json_own_id :: string where
  \<open>json_own_id =
     ''{"classification": {"feedback_id": "gh-999", "urgency": 5, "sentiment": -2, "impact": 5, "actionability": 3}, "signals": [{"feedback_id": "gh-999", "signal_type": "feature_area", "signal_value": "tunnels"}, {"signal_type": "issue_category", "signal_value": "bug"}], "confidence": 0.9, "reasoning": "text"}''\<close>

definition value_own_id :: jsval where
  "value_own_id =
     JObj [''classification'' \<mapsto>
             JObj [''feedback_id'' \<mapsto> JStr ''gh-999'',
                   ''urgency'' \<mapsto> JNum (Finite 5),
                   ''sentiment'' \<mapsto> JNum (Finite (- 2)),
                   ''impact'' \<mapsto> JNum (Finite 5),
                   ''actionability'' \<mapsto> JNum (Finite 3)],
           ''signals'' \<mapsto>
             JArr [JObj [''feedback_id'' \<mapsto> JStr ''gh-999'',
                         ''signal_type'' \<mapsto> JStr ''feature_area'',
                         ''signal_value'' \<mapsto> JStr ''tunnels''],
                   JObj [''signal_type'' \<mapsto> JStr ''issue_category'',
                         ''signal_value'' \<mapsto> JStr ''bug'']],
           ''confidence'' \<mapsto> JNum (Finite (9 / 10)),
           ''reasoning'' \<mapsto> JStr ''text'']"

definition json_signal_id :: string where
  \<open>json_signal_id =
     ''{"classification": {"urgency": 5, "sentiment": -2, "impact": 5, "actionability": 3}, "signals": [{"signal_type": "feature_area", "signal_value": "tunnels", "confidence": 0.8, "feedback_id": "gh-999"}, {"signal_type": "issue_category", "signal_value": "bug", "confidence": 0.7}], "confidence": 0.9, "reasoning": "text"}''\<close>

definition value_signal_id :: jsval where
  "value_signal_id =
     JObj [''classification'' \<mapsto>
             JObj [''urgency'' \<mapsto> JNum (Finite 5),
                   ''sentiment'' \<mapsto> JNum (Finite (- 2)),
                   ''impact'' \<mapsto> JNum (Finite 5),
                   ''actionability'' \<mapsto> JNum (Finite 3)],
           ''signals'' \<mapsto>
             JArr [JObj [''signal_type'' \<mapsto> JStr ''feature_area'',
                         ''signal_value'' \<mapsto> JStr ''tunnels'',
                         ''confidence'' \<mapsto> JNum (Finite (8 / 10)),
                         ''feedback_id'' \<mapsto> JStr ''gh-999''],
                   JObj [''signal_type'' \<mapsto> JStr ''issue_category'',
                         ''signal_value'' \<mapsto> JStr ''bug'',
                         ''confidence'' \<mapsto> JNum (Finite (7 / 10))]],
           ''confidence'' \<mapsto> JNum (Finite (9 / 10)),
           ''reasoning'' \<mapsto> JStr ''text'']"

definition json_urgency_only :: string where
  \<open>json_urgency_only =
     ''{"classification": {"urgency": 4, "impact": "high", "actionability": null}, "signals": []}''\<close>

definition value_urgency_only :: jsval where
  "value_urgency_only =
     JObj [''classification'' \<mapsto>
             JObj [''urgency'' \<mapsto> JNum (Finite 4),
                   ''impact'' \<mapsto> JStr ''high'',
                   ''actionability'' \<mapsto> JNull],
           ''signals'' \<mapsto> JArr []]"

definition json_no_classification :: string where
  \<open>json_no_classification = ''{"urgency": 5, "impact": 5}''\<close>

definition value_no_classification :: jsval where
  "value_no_classification =
     JObj [''urgency'' \<mapsto> JNum (Finite 5), ''impact'' \<mapsto> JNum (Finite 5)]"

definition json_unconvertible :: string where
  \<open>json_unconvertible =
     ''{"classification": {"urgency": 4, "impact": {"toString": null, "valueOf": null}}, "signals": []}''\<close>

definition value_unconvertible :: jsval where
  "value_unconvertible =
     JObj [''classification'' \<mapsto>
             JObj [''urgency'' \<mapsto> JNum (Finite 4),
                   ''impact'' \<mapsto> JObj [''toString'' \<mapsto> JNull, ''valueOf'' \<mapsto> JNull]],
           ''signals'' \<mapsto> JArr []]"

definition json_themes :: string where
  \<open>json_themes = ''["installation", "documentation"]''\<close>

definition value_themes :: jsval where
  "value_themes = JArr [JStr ''installation'', JStr ''documentation'']"

text \<open>Response texts: a JSON text with the prose that a model may put around it.\<close>

definition response_round_trip :: string where
  "response_round_trip = ''Here is the analysis: '' @ json_round_trip @ '' Hope this helps.''"

definition response_signal_id :: string where
  "response_signal_id = ''Result: '' @ json_signal_id"

definition response_own_id :: string where
  "response_own_id = ''Result: '' @ json_own_id"

definition response_themes :: string where
  "response_themes = ''Themes: '' @ json_themes @ '' (2 found)''"

text \<open>
  \<open>example_runtime\<close> gives the three operations on the arguments that the examples
  reach: \<^verbatim>\<open>JSON.parse\<close> on the seven texts above (every other text that the examples
  hand to it is no JSON text); the conversion to a number of the string \<^verbatim>\<open>"high"\<close>,
  which is NaN, and of an object whose own \<^verbatim>\<open>toString\<close> and \<^verbatim>\<open>valueOf\<close> are
  \<^verbatim>\<open>null\<close>, which throws a TypeError; and the string of the number 5.
\<close>

definition example_runtime :: runtime where
  "example_runtime =
     \<lparr> JSON_parse =
         (\<lambda>s. if s = json_round_trip then Some value_round_trip
              else if s = json_own_id then Some value_own_id
              else if s = json_signal_id then Some value_signal_id
              else if s = json_urgency_only then Some value_urgency_only
              else if s = json_no_classification then Some value_no_classification
              else if s = json_unconvertible then Some value_unconvertible
              else if s = json_themes then Some value_themes
              else None),
       ToNumber_other =
         (\<lambda>v. case v of
                JObj m \<Rightarrow>
                  (case (m ''toString'', m ''valueOf'') of
                     (Some JNull, Some JNull) \<Rightarrow> Inl TypeError
                   | _ \<Rightarrow> Inr NaN)
              | _ \<Rightarrow> Inr NaN),
       Number_toString = (\<lambda>n. ''5'') \<rparr>"

section \<open>Basic facts\<close>

lemma bind_err_Inr_iff:
  "bind_err x f = Inr v \<longleftrightarrow> (\<exists>a. x = Inr a \<and> f a = Inr v)"
  by (cases x) (simp_all add: bind_err_def)

lemma bind_err_simps [simp]:
  "bind_err (Inr a) f = f a"
  "bind_err (Inl e) f = Inl e"
  by (simp_all add: bind_err_def)

lemma typeof_number_iff: "typeof u = ''number'' \<longleftrightarrow> (\<exists>n. u = JNum n)"
  by (cases u) simp_all

lemma get_prop_JNum:
  "get_prop v k = Inr (JNum n) \<Longrightarrow> \<exists>m. v = JObj m \<and> m k = Some (JNum n)"
  by (cases v) (auto split: option.splits)

lemma get_prop_JObj:
  "get_prop v k = Inr (JObj c) \<Longrightarrow> \<exists>m. v = JObj m \<and> m k = Some (JObj c)"
  by (cases v) (auto split: option.splits)

lemma has_numeric_urgency_iff:
  "has_numeric_urgency parsed \<longleftrightarrow>
     (\<exists>p c n. parsed = JObj p \<and> p ''classification'' = Some (JObj c) \<and> c ''urgency'' = Some (JNum n))"
  by (auto simp: has_numeric_urgency_def split: jsval.splits option.splits)

subsection \<open>The rule engine on a numeric vector\<close>

lemma get_prop_vector:
  "get_prop (vector_object v) ''urgency'' = Inr (JNum (urgency v))"
  "get_prop (vector_object v) ''sentiment'' = Inr (JNum (sentiment v))"
  "get_prop (vector_object v) ''impact'' = Inr (JNum (impact v))"
  "get_prop (vector_object v) ''actionability'' = Inr (JNum (actionability v))"
  by (simp_all add: vector_object_def)

lemma determineRoute_vector:
  "determineRoute rt (vector_object v) rules = Inr (route_of_labels (matched_labels v rules))"
  by (simp add: determineRoute_def get_prop_vector js_ge_def js_le_def js_and_def bind_err_def
      route_of_labels_def matched_labels_def is_immediate_engineering_def
      is_quick_win_backlog_def is_trust_risk_def Let_def)

lemma determineRoute_numeric:
  assumes "m ''urgency'' = Some (JNum (urgency v))" "m ''sentiment'' = Some (JNum (sentiment v))"
    "m ''impact'' = Some (JNum (impact v))" "m ''actionability'' = Some (JNum (actionability v))"
  shows "determineRoute rt (JObj m) rules = Inr (route_of_labels (matched_labels v rules))"
  using assms
  by (simp add: determineRoute_def js_ge_def js_le_def js_and_def
      route_of_labels_def matched_labels_def is_immediate_engineering_def
      is_quick_win_backlog_def is_trust_risk_def Let_def)

subsection \<open>The matcher\<close>

lemma match_tail_eq:
  "match_tail cl cs =
     (if cl \<in> set cs then Some (rev (dropWhile (\<lambda>x. x \<noteq> cl) (rev cs))) else None)"
proof (induction cs)
  case Nil
  show ?case by simp
next
  case (Cons c cs)
  show ?case
  proof (cases "cl \<in> set cs")
    case True
    then have "dropWhile (\<lambda>x. x \<noteq> cl) (rev cs @ [c]) = dropWhile (\<lambda>x. x \<noteq> cl) (rev cs) @ [c]"
      by (intro dropWhile_append1[of cl]) simp_all
    with True Cons show ?thesis by simp
  next
    case False
    then have "dropWhile (\<lambda>x. x \<noteq> cl) (rev cs @ [c]) = dropWhile (\<lambda>x. x \<noteq> cl) [c]"
      by (intro dropWhile_append2) auto
    with False Cons show ?thesis by auto
  qed
qed

lemma regex_match_no_close: "cl \<notin> set cs \<Longrightarrow> regex_match op cl cs = None"
  by (induction cs) (auto simp: match_tail_eq)

lemma regex_match_no_open: "op \<notin> set cs \<Longrightarrow> regex_match op cl cs = None"
  by (induction cs) auto

lemma regex_match_eq:
  "regex_match op cl text =
     (case dropWhile (\<lambda>x. x \<noteq> op) text of
        [] \<Rightarrow> None
      | c # rest \<Rightarrow>
          if cl \<in> set rest then Some (c # rev (dropWhile (\<lambda>x. x \<noteq> cl) (rev rest))) else None)"
  by (induction "text") (auto simp: match_tail_eq regex_match_no_close)

lemma regex_match_split:
  assumes "op \<notin> set pre"
  shows "regex_match op cl (pre @ op # rest) =
     (if cl \<in> set rest then Some (op # rev (dropWhile (\<lambda>x. x \<noteq> cl) (rev rest))) else None)"
proof -
  have "dropWhile (\<lambda>x. x \<noteq> op) (pre @ op # rest) = op # rest"
    using assms by (induction pre) auto
  then show ?thesis by (simp add: regex_match_eq)
qed

lemma regex_match_None_iff:
  "regex_match op cl text = None \<longleftrightarrow> \<not> (\<exists>pre body post. text = pre @ op # body @ cl # post)"
proof (cases "op \<in> set text")
  case False
  then have "regex_match op cl text = None" by (rule regex_match_no_open)
  moreover have "\<not> (\<exists>pre body post. text = pre @ op # body @ cl # post)"
    using False by auto
  ultimately show ?thesis by simp
next
  case True
  then obtain pre rest where t: "text = pre @ op # rest" "op \<notin> set pre"
    by (meson split_list_first)
  show ?thesis
  proof (cases "cl \<in> set rest")
    case True
    then obtain body post where "rest = body @ cl # post" by (meson split_list)
    with t True show ?thesis by (auto simp: regex_match_split)
  next
    case False
    have "\<not> (\<exists>pre' body post. text = pre' @ op # body @ cl # post)"
    proof
      assume "\<exists>pre' body post. text = pre' @ op # body @ cl # post"
      then obtain pre' body post where e: "pre @ op # rest = pre' @ op # body @ cl # post"
        using t by auto
      then have "\<exists>us. (pre = pre' @ us \<and> us @ op # rest = op # body @ cl # post)
                  \<or> (pre @ us = pre' \<and> op # rest = us @ op # body @ cl # post)"
        by (simp add: append_eq_append_conv2)
      then obtain us where us: "(pre = pre' @ us \<and> us @ op # rest = op # body @ cl # post)
                  \<or> (pre @ us = pre' \<and> op # rest = us @ op # body @ cl # post)" by blast
      show False
      proof (cases us)
        case Nil
        with us False show False by auto
      next
        case (Cons u us')
        with us t(2) False show False by auto
      qed
    qed
    with t False show ?thesis by (simp add: regex_match_split)
  qed
qed

lemma regex_match_prose:
  assumes "op \<notin> set pre" "cl \<notin> set post"
  shows "regex_match op cl (pre @ op # body @ cl # post) = Some (op # body @ [cl])"
proof -
  have "dropWhile (\<lambda>x. x \<noteq> cl) (rev post @ cl # rev body) = cl # rev body"
    using assms(2) by (induction post rule: rev_induct) auto
  then show ?thesis using assms(1) by (simp add: regex_match_split)
qed


lemma length_takeWhile_stop:
  "x \<in> set xs \<Longrightarrow> \<not> P x \<Longrightarrow> length (takeWhile P xs) < length xs"
  by (induction xs) auto

lemma regex_match_first_to_last: "regex_match op cl text = first_to_last op cl text"
proof (cases "op \<in> set text")
  case False
  then show ?thesis by (simp add: regex_match_no_open first_to_last_def first_index_def)
next
  case True
  then obtain pre rest where t: "text = pre @ op # rest" "op \<notin> set pre"
    by (meson split_list_first)
  have tw_pre: "takeWhile (\<lambda>x. x \<noteq> op) (pre @ op # rest) = pre"
    using t(2) by (induction pre) auto
  have fi: "first_index op text = Some (length pre)"
    using True t(1) tw_pre by (simp add: first_index_def)
  show ?thesis
  proof (cases "cl \<in> set rest")
    case True
    define tw where "tw = takeWhile (\<lambda>x. x \<noteq> cl) (rev rest)"
    have tw_all: "takeWhile (\<lambda>x. x \<noteq> cl) (rev text) = tw"
      unfolding t(1) tw_def using True by (simp add: takeWhile_append1[of cl])
    have "length tw < length (rev rest)"
      unfolding tw_def using True
      by (intro length_takeWhile_stop[of cl]) simp_all
    then have lt: "length tw < length rest" by simp
    have li: "last_index cl text = Some (length pre + length rest - length tw)"
      using True lt t(1) tw_all by (simp add: last_index_def)
    have "rev (dropWhile (\<lambda>x. x \<noteq> cl) (rev rest)) = take (length rest - length tw) rest"
      by (simp add: dropWhile_eq_drop tw_def rev_drop)
    then show ?thesis
      using True lt t fi li
      by (simp add: regex_match_split first_to_last_def Suc_diff_le)
  next
    case False
    have r: "regex_match op cl text = None"
      using False t by (simp add: regex_match_split)
    show ?thesis
    proof (cases "cl \<in> set text")
      case nin: False
      then show ?thesis using r fi by (simp add: first_to_last_def last_index_def)
    next
      case cin: True
      have "takeWhile (\<lambda>x. x \<noteq> cl) (rev rest @ op # rev pre)
              = rev rest @ takeWhile (\<lambda>x. x \<noteq> cl) (op # rev pre)"
        using False by (intro takeWhile_append2) auto
      then have "length rest \<le> length (takeWhile (\<lambda>x. x \<noteq> cl) (rev text))"
        unfolding t(1) by simp
      then have "\<exists>j. last_index cl text = Some j \<and> j \<le> length pre"
        using cin t(1) by (simp add: last_index_def)
      then show ?thesis using r fi by (auto simp: first_to_last_def)
    qed
  qed
qed

subsection \<open>Validation and fallback\<close>

lemma parse_try_extracted:
  "parseAIResponse_try rt response = Inr v \<Longrightarrow> extracted_value rt response = Some v"
  by (auto simp: parseAIResponse_try_def extracted_value_def bind_err_Inr_iff
      split: option.splits if_splits)

lemma parse_try_valid:
  assumes "extracted_value rt response = Some p" "has_numeric_urgency p"
  shows "parseAIResponse_try rt response = Inr p"
proof -
  from assms(2) obtain m c n where
    "p = JObj m" "m ''classification'' = Some (JObj c)" "c ''urgency'' = Some (JNum n)"
    unfolding has_numeric_urgency_iff by blast
  with assms(1) show ?thesis
    by (auto simp: parseAIResponse_try_def extracted_value_def split: option.splits)
qed

lemma parse_try_shape:
  assumes "parseAIResponse_try rt response = Inr v"
  shows "has_numeric_urgency v"
proof -
  from assms obtain c u where
    c: "get_prop v ''classification'' = Inr c" "truthy c"
    and u: "get_prop c ''urgency'' = Inr u" "typeof u = ''number''"
    by (auto simp: parseAIResponse_try_def bind_err_Inr_iff split: option.splits if_splits)
  from u(2) obtain n where "u = JNum n" unfolding typeof_number_iff ..
  with u(1) obtain cm where cm: "c = JObj cm" "cm ''urgency'' = Some (JNum n)"
    using get_prop_JNum by blast
  with c(1) obtain m where "v = JObj m" "m ''classification'' = Some (JObj cm)"
    using get_prop_JObj by blast
  with cm show ?thesis unfolding has_numeric_urgency_iff by blast
qed

lemma parseAIResponse_cases:
  "parseAIResponse rt response =
     (case extracted_value rt response of
        None \<Rightarrow> conservative_default
      | Some p \<Rightarrow> if has_numeric_urgency p then p else conservative_default)"
proof (cases "parseAIResponse_try rt response")
  case (Inr v)
  then show ?thesis
    using parse_try_extracted[OF Inr] parse_try_shape[OF Inr] by (simp add: parseAIResponse_def)
next
  case (Inl e)
  then have "\<not> (\<exists>p. extracted_value rt response = Some p \<and> has_numeric_urgency p)"
    using parse_try_valid by fastforce
  with Inl show ?thesis by (auto simp: parseAIResponse_def split: option.splits)
qed

lemma classifyFeedback_response:
  "ai ''@cf/meta/llama-3.1-70b-instruct'' (classification_messages feedback rules) = Inr response \<Longrightarrow>
   classifyFeedback rt ai feedback rules
     = assemble_result rt feedback rules (parseAIResponse rt response)"
  by (simp add: classifyFeedback_def classification_messages_def)

lemma classifyFeedback_rejected:
  "ai ''@cf/meta/llama-3.1-70b-instruct'' (classification_messages feedback rules) = Inl e \<Longrightarrow>
   classifyFeedback rt ai feedback rules = Inl e"
  by (simp add: classifyFeedback_def classification_messages_def)

lemma assemble_default:
  "assemble_result rt feedback rules conservative_default =
     Inr \<lparr> classification =
             JObj [''feedback_id'' \<mapsto> JStr (id' feedback),
                   ''urgency'' \<mapsto> JNum (Finite 3),
                   ''sentiment'' \<mapsto> JNum (Finite 0),
                   ''impact'' \<mapsto> JNum (Finite 3),
                   ''actionability'' \<mapsto> JNum (Finite 2),
                   ''route'' \<mapsto> JStr (route_of_labels (matched_labels fallback_vector rules)),
                   ''confidence'' \<mapsto> JNum (Finite (3 / 10)),
                   ''reasoning'' \<mapsto> JStr ''Failed to parse AI response, using conservative defaults''],
           signals = [] \<rparr>"
proof -
  have r: "determineRoute rt
       (JObj [''urgency'' \<mapsto> JNum (Finite 3), ''sentiment'' \<mapsto> JNum (Finite 0),
              ''impact'' \<mapsto> JNum (Finite 3), ''actionability'' \<mapsto> JNum (Finite 2)]) rules
     = Inr (route_of_labels (matched_labels fallback_vector rules))"
    by (rule determineRoute_numeric) (simp_all add: fallback_vector_def)
  have m: "([''feedback_id'' \<mapsto> JStr (id' feedback)] ++
            [''urgency'' \<mapsto> JNum (Finite 3), ''sentiment'' \<mapsto> JNum (Finite 0),
              ''impact'' \<mapsto> JNum (Finite 3), ''actionability'' \<mapsto> JNum (Finite 2)])
         = [''feedback_id'' \<mapsto> JStr (id' feedback), ''urgency'' \<mapsto> JNum (Finite 3), ''sentiment'' \<mapsto> JNum (Finite 0),
              ''impact'' \<mapsto> JNum (Finite 3), ''actionability'' \<mapsto> JNum (Finite 2)]"
    by (rule ext) (simp add: map_add_def)
  show ?thesis
    unfolding assemble_result_def conservative_default_def
    by (simp add: r m)
qed

lemma assemble_valid:
  assumes "p ''classification'' = Some (JObj c)"
    and "determineRoute rt (JObj c) rules = Inr route"
    and "p ''signals'' = Some (JArr xs)"
  shows "assemble_result rt feedback rules (JObj p) =
     Inr \<lparr> classification =
             JObj (([''feedback_id'' \<mapsto> JStr (id' feedback)] ++ c)
                   (''route'' \<mapsto> JStr route,
                    ''confidence'' \<mapsto> (case p ''confidence'' of None \<Rightarrow> JUndefined | Some v \<Rightarrow> v),
                    ''reasoning'' \<mapsto> (case p ''reasoning'' of None \<Rightarrow> JUndefined | Some v \<Rightarrow> v))),
           signals = map (\<lambda>s. JObj ([''feedback_id'' \<mapsto> JStr (id' feedback)] ++ own_properties s)) xs \<rparr>"
  using assms by (simp add: assemble_result_def)

lemma assemble_route_error:
  assumes "p ''classification'' = Some (JObj c)"
    and "determineRoute rt (JObj c) rules = Inl e"
  shows "assemble_result rt feedback rules (JObj p) = Inl e"
  using assms by (simp add: assemble_result_def)

lemma assemble_route:
  assumes "p ''classification'' = Some (JObj c)"
    and "assemble_result rt feedback rules (JObj p) = Inr res"
  shows "\<exists>route. determineRoute rt (JObj c) rules = Inr route
           \<and> get_prop (classification res) ''route'' = Inr (JStr route)"
  using assms by (auto simp: assemble_result_def bind_err_Inr_iff)

lemma stamped_feedback_id:
  "([''feedback_id'' \<mapsto> a] ++ s) ''feedback_id'' = Some (case s ''feedback_id'' of Some v \<Rightarrow> v | None \<Rightarrow> a)"
  by (simp add: map_add_def split: option.splits)

lemma parse_accepts:
  assumes "extracted_value rt response = Some (JObj p)"
    and "p ''classification'' = Some (JObj c)" and "c ''urgency'' = Some (JNum n)"
  shows "parseAIResponse rt response = JObj p"
  using assms by (simp add: parseAIResponse_cases has_numeric_urgency_iff)

subsection \<open>The concrete inputs\<close>

lemma example_parse_defs:
  "JSON_parse example_runtime json_round_trip = Some value_round_trip"
  "JSON_parse example_runtime json_own_id = Some value_own_id"
  "JSON_parse example_runtime json_signal_id = Some value_signal_id"
  "JSON_parse example_runtime json_urgency_only = Some value_urgency_only"
  "JSON_parse example_runtime json_no_classification = Some value_no_classification"
  "JSON_parse example_runtime json_unconvertible = Some value_unconvertible"
  "JSON_parse example_runtime json_themes = Some value_themes"
  by (simp_all add: example_runtime_def json_round_trip_def json_own_id_def json_signal_id_def
      json_urgency_only_def json_no_classification_def json_unconvertible_def json_themes_def)

lemma match_examples:
  "match_object response_round_trip = Some json_round_trip"
  "match_object response_own_id = Some json_own_id"
  "match_object response_signal_id = Some json_signal_id"
  "match_object json_urgency_only = Some json_urgency_only"
  "match_object json_no_classification = Some json_no_classification"
  "match_object json_unconvertible = Some json_unconvertible"
  "match_array response_themes = Some json_themes"
  by (simp_all add: match_object_def match_array_def response_round_trip_def response_own_id_def
      response_signal_id_def response_themes_def
      json_round_trip_def json_own_id_def json_signal_id_def
      json_urgency_only_def json_no_classification_def json_unconvertible_def json_themes_def)

lemma extracted_examples:
  "extracted_value example_runtime response_round_trip = Some value_round_trip"
  "extracted_value example_runtime response_own_id = Some value_own_id"
  "extracted_value example_runtime response_signal_id = Some value_signal_id"
  "extracted_value example_runtime json_urgency_only = Some value_urgency_only"
  "extracted_value example_runtime json_no_classification = Some value_no_classification"
  "extracted_value example_runtime json_unconvertible = Some value_unconvertible"
  by (simp_all add: extracted_value_def match_examples example_parse_defs)

lemma ToNumber_other_examples:
  "ToNumber_other example_runtime (JStr s) = Inr NaN"
  "ToNumber_other example_runtime (JObj [''toString'' \<mapsto> JNull, ''valueOf'' \<mapsto> JNull]) = Inl TypeError"
  by (simp_all add: example_runtime_def)

lemma route_5_m2_5_3:
  "determineRoute rt
     (JObj [''urgency'' \<mapsto> JNum (Finite 5), ''sentiment'' \<mapsto> JNum (Finite (- 2)),
            ''impact'' \<mapsto> JNum (Finite 5), ''actionability'' \<mapsto> JNum (Finite 3)]) defaultRules
     = Inr ''immediate_engineering,trust_risk''"
  by (simp add: determineRoute_def js_ge_def js_le_def js_and_def defaultRules_def)

subsection \<open>Theme extraction\<close>

lemma themes_prompt_cut:
  "themes_prompt rt (map cut_content (take 20 feedbackItems)) limit
     = themes_prompt rt feedbackItems limit"
  by (simp add: themes_prompt_def cut_content_def take_map o_def)

lemma extractThemes_response:
  assumes "feedbackItems \<noteq> []"
    and "ai ''@cf/meta/llama-3.1-8b-instruct'' (themes_messages rt feedbackItems limit_arg) = Inr response"
  shows "extractThemes rt ai feedbackItems limit_arg =
     Inr (case match_array response of
            None \<Rightarrow> JArr []
          | Some m \<Rightarrow> (case JSON_parse rt m of None \<Rightarrow> JArr [] | Some themes \<Rightarrow> themes))"
  using assms
  by (simp add: extractThemes_def themes_messages_def Let_def split: option.splits)

lemma extractThemes_cut:
  "extractThemes rt ai (map cut_content (take 20 feedbackItems)) limit_arg
     = extractThemes rt ai feedbackItems limit_arg"
proof (cases "feedbackItems = []")
  case True
  then show ?thesis by simp
next
  case False
  show ?thesis
    unfolding extractThemes_def themes_prompt_cut using False by (simp add: min_def)
qed

section \<open>The claims\<close>

text \<open>
  Claim C1. For every classification vector and every complete rule configuration the
  rule engine evaluates three independent predicates: \<^verbatim>\<open>immediate_engineering\<close> holds
  iff urgency \<open>\<ge>\<close> urgency_min and impact \<open>\<ge>\<close> impact_min, \<^verbatim>\<open>quick_win_backlog\<close> iff
  urgency \<open>\<le>\<close> urgency_max and actionability \<open>\<ge>\<close> actionability_min, \<^verbatim>\<open>trust_risk\<close> iff
  sentiment \<open>\<le>\<close> sentiment_max and impact \<open>\<ge>\<close> impact_min. It returns the labels that
  match, joined with commas in this fixed order (and \<^verbatim>\<open>standard_backlog\<close> when there is
  none). For urgency 5, impact 5, sentiment -2, actionability 5 under the default
  thresholds the result is \<^verbatim>\<open>immediate_engineering,trust_risk\<close>. The comparisons are those
  of the language, \<open>num_le\<close>; the vector and the thresholds range over all numbers.
\<close>

theorem determineRoute_three_predicates:
  "determineRoute rt (vector_object v) rules = Inr (route_of_labels (matched_labels v rules))
   \<and> (''immediate_engineering'' \<in> set (matched_labels v rules) \<longleftrightarrow>
        num_le (urgency_min (immediate_engineering (routing_rules rules))) (urgency v) \<and>
        num_le (ImmediateEngineering.impact_min (immediate_engineering (routing_rules rules))) (impact v))
   \<and> (''quick_win_backlog'' \<in> set (matched_labels v rules) \<longleftrightarrow>
        num_le (urgency v) (urgency_max (quick_win_backlog (routing_rules rules))) \<and>
        num_le (actionability_min (quick_win_backlog (routing_rules rules))) (actionability v))
   \<and> (''trust_risk'' \<in> set (matched_labels v rules) \<longleftrightarrow>
        num_le (sentiment v) (sentiment_max (trust_risk (routing_rules rules))) \<and>
        num_le (TrustRisk.impact_min (trust_risk (routing_rules rules))) (impact v))
   \<and> matched_labels v rules
       = filter (\<lambda>l. l \<in> set (matched_labels v rules))
           [''immediate_engineering'', ''quick_win_backlog'', ''trust_risk'']
   \<and> determineRoute rt
        (vector_object \<lparr> urgency = Finite 5, sentiment = Finite (- 2), impact = Finite 5,
                         actionability = Finite 5 \<rparr>) defaultRules
       = Inr ''immediate_engineering,trust_risk''"
proof -
  have "determineRoute rt
        (vector_object \<lparr> urgency = Finite 5, sentiment = Finite (- 2), impact = Finite 5,
                         actionability = Finite 5 \<rparr>) defaultRules
       = Inr ''immediate_engineering,trust_risk''"
    by (simp add: determineRoute_vector route_of_labels_def matched_labels_def
        is_immediate_engineering_def is_quick_win_backlog_def is_trust_risk_def defaultRules_def)
  moreover have "''immediate_engineering'' \<in> set (matched_labels v rules) \<longleftrightarrow>
        num_le (urgency_min (immediate_engineering (routing_rules rules))) (urgency v) \<and>
        num_le (ImmediateEngineering.impact_min (immediate_engineering (routing_rules rules))) (impact v)"
    by (simp add: matched_labels_def is_immediate_engineering_def)
  moreover have "''quick_win_backlog'' \<in> set (matched_labels v rules) \<longleftrightarrow>
        num_le (urgency v) (urgency_max (quick_win_backlog (routing_rules rules))) \<and>
        num_le (actionability_min (quick_win_backlog (routing_rules rules))) (actionability v)"
    by (simp add: matched_labels_def is_quick_win_backlog_def)
  moreover have "''trust_risk'' \<in> set (matched_labels v rules) \<longleftrightarrow>
        num_le (sentiment v) (sentiment_max (trust_risk (routing_rules rules))) \<and>
        num_le (TrustRisk.impact_min (trust_risk (routing_rules rules))) (impact v)"
    by (simp add: matched_labels_def is_trust_risk_def)
  moreover have "matched_labels v rules
       = filter (\<lambda>l. l \<in> set (matched_labels v rules))
           [''immediate_engineering'', ''quick_win_backlog'', ''trust_risk'']"
    by (simp add: matched_labels_def)
  ultimately show ?thesis by (simp only: determineRoute_vector simp_thms)
qed

text \<open>
  Claim C4. For every classification vector and every complete rule configuration the
  rule engine returns a string, the string is not empty, and nothing is thrown. When none
  of the three predicates holds the result is exactly \<^verbatim>\<open>standard_backlog\<close>; urgency 2,
  impact 1, sentiment 0, actionability 2 under the default thresholds is such a vector.
\<close>

theorem determineRoute_total:
  "(\<exists>r. determineRoute rt (vector_object v) rules = Inr r \<and> r \<noteq> [] \<and>
        (\<not> is_immediate_engineering v rules \<and> \<not> is_quick_win_backlog v rules \<and>
         \<not> is_trust_risk v rules \<longrightarrow> r = ''standard_backlog''))
   \<and> determineRoute rt
        (vector_object \<lparr> urgency = Finite 2, sentiment = Finite 0, impact = Finite 1,
                         actionability = Finite 2 \<rparr>) defaultRules
       = Inr ''standard_backlog''"
proof -
  have "route_of_labels (matched_labels v rules) \<noteq> []"
    by (simp add: route_of_labels_def matched_labels_def)
  moreover have "\<not> is_immediate_engineering v rules \<and> \<not> is_quick_win_backlog v rules \<and>
         \<not> is_trust_risk v rules \<longrightarrow> route_of_labels (matched_labels v rules) = ''standard_backlog''"
    by (simp add: route_of_labels_def matched_labels_def)
  moreover have "determineRoute rt
        (vector_object \<lparr> urgency = Finite 2, sentiment = Finite 0, impact = Finite 1,
                         actionability = Finite 2 \<rparr>) defaultRules
       = Inr ''standard_backlog''"
    by (simp add: determineRoute_vector route_of_labels_def matched_labels_def
        is_immediate_engineering_def is_quick_win_backlog_def is_trust_risk_def defaultRules_def)
  ultimately show ?thesis by (simp add: determineRoute_vector)
qed

text \<open>A vector on which no predicate holds under the default thresholds.\<close>

theorem determineRoute_total_witness:
  "\<not> is_immediate_engineering
        \<lparr> urgency = Finite 1, sentiment = Finite 2, impact = Finite 2, actionability = Finite 3 \<rparr> defaultRules
   \<and> \<not> is_quick_win_backlog
        \<lparr> urgency = Finite 1, sentiment = Finite 2, impact = Finite 2, actionability = Finite 3 \<rparr> defaultRules
   \<and> \<not> is_trust_risk
        \<lparr> urgency = Finite 1, sentiment = Finite 2, impact = Finite 2, actionability = Finite 3 \<rparr> defaultRules
   \<and> determineRoute example_runtime
        (vector_object \<lparr> urgency = Finite 1, sentiment = Finite 2, impact = Finite 2, actionability = Finite 3 \<rparr>)
        defaultRules = Inr ''standard_backlog''"
  using determineRoute_total [of example_runtime
      "\<lparr> urgency = Finite 1, sentiment = Finite 2, impact = Finite 2, actionability = Finite 3 \<rparr>" defaultRules]
  by (auto simp: is_immediate_engineering_def is_quick_win_backlog_def is_trust_risk_def defaultRules_def)

text \<open>
  Claim C7. For every response text the extraction step selects the substring from the
  first \<^verbatim>\<open>{\<close> to the last \<^verbatim>\<open>}\<close>. It is no balanced parse: prose before the first
  \<^verbatim>\<open>{\<close> and after the last \<^verbatim>\<open>}\<close> is dropped, and whatever stands between them is kept.
  Extraction fails exactly when the text has no substring that starts with \<^verbatim>\<open>{\<close> and
  ends with \<^verbatim>\<open>}\<close>.
\<close>

theorem extraction_first_to_last:
  "match_object text = first_to_last (CHR ''{'') (CHR ''}'') text
   \<and> (match_object text = None \<longleftrightarrow> \<not> (\<exists>pre body post. text = pre @ ''{'' @ body @ ''}'' @ post))
   \<and> (CHR ''{'' \<notin> set pre \<and> CHR ''}'' \<notin> set post \<longrightarrow>
        match_object (pre @ ''{'' @ body @ ''}'' @ post) = Some (''{'' @ body @ ''}''))"
  using regex_match_first_to_last [of "CHR ''{''" "CHR ''}''" "text"]
    regex_match_None_iff [of "CHR ''{''" "CHR ''}''" "text"]
    regex_match_prose [of "CHR ''{''" pre "CHR ''}''" post body]
  by (simp add: match_object_def)

text \<open>A response with prose on both sides and a nested object inside.\<close>

theorem extraction_first_to_last_witness:
  \<open>CHR ''{'' \<notin> set ''Sure, here it is: '' \<and> CHR ''}'' \<notin> set '' Anything else?''
   \<and> match_object (''Sure, here it is: '' @ ''{'' @ ''"a": {"b": 1}'' @ ''}'' @ '' Anything else?'')
       = Some (''{'' @ ''"a": {"b": 1}'' @ ''}'')\<close>
  using extraction_first_to_last [of "''x''" "''Sure, here it is: ''" "'' Anything else?''" \<open>''"a": {"b": 1}''\<close>]
  by simp

text \<open>
  Claim C2. When the model returns a response text from which no JSON value can be
  extracted (nothing matches, or the match does not parse), or whose parsed value lacks a
  \<^verbatim>\<open>classification\<close> object with a numeric \<^verbatim>\<open>urgency\<close>, \<^verbatim>\<open>classifyFeedback\<close> throws
  nothing and returns the conservative default: urgency 3, sentiment 0, impact 3,
  actionability 2, confidence 0.3, the fixed reasoning string, no signals, and the route
  that the rule engine computes from this vector under the rules supplied, which is
  \<^verbatim>\<open>standard_backlog\<close> under the default thresholds.
\<close>

theorem classify_fallback:
  assumes "ai ''@cf/meta/llama-3.1-70b-instruct'' (classification_messages feedback rules) = Inr response"
    and "extracted_value rt response = None
         \<or> (\<exists>p. extracted_value rt response = Some p \<and> \<not> has_numeric_urgency p)"
  shows "\<exists>route.
           determineRoute rt (vector_object fallback_vector) rules = Inr route
         \<and> classifyFeedback rt ai feedback rules =
             Inr \<lparr> classification =
                     JObj [''feedback_id'' \<mapsto> JStr (id' feedback),
                           ''urgency'' \<mapsto> JNum (Finite 3),
                           ''sentiment'' \<mapsto> JNum (Finite 0),
                           ''impact'' \<mapsto> JNum (Finite 3),
                           ''actionability'' \<mapsto> JNum (Finite 2),
                           ''route'' \<mapsto> JStr route,
                           ''confidence'' \<mapsto> JNum (Finite (3 / 10)),
                           ''reasoning'' \<mapsto>
                             JStr ''Failed to parse AI response, using conservative defaults''],
                   signals = [] \<rparr>
         \<and> (routing_rules rules = routing_rules defaultRules \<longrightarrow> route = ''standard_backlog'')"
proof -
  have "parseAIResponse rt response = conservative_default"
    using assms(2) by (auto simp: parseAIResponse_cases)
  then have "classifyFeedback rt ai feedback rules
               = assemble_result rt feedback rules conservative_default"
    using classifyFeedback_response [of ai feedback rules response rt] assms(1) by simp
  moreover have "routing_rules rules = routing_rules defaultRules \<longrightarrow>
      route_of_labels (matched_labels fallback_vector rules) = ''standard_backlog''"
    by (simp add: route_of_labels_def matched_labels_def is_immediate_engineering_def
        is_quick_win_backlog_def is_trust_risk_def defaultRules_def fallback_vector_def)
  ultimately show ?thesis
    by (simp add: assemble_default determineRoute_vector)
qed

text \<open>
  Two responses that take the fallback: \<^verbatim>\<open>{invalid json\<close>, in which nothing matches, and
  a JSON object without a \<^verbatim>\<open>classification\<close>.
\<close>

theorem classify_fallback_witness:
  "stub_ai ''{invalid json'' ''@cf/meta/llama-3.1-70b-instruct''
       (classification_messages example_feedback defaultRules) = Inr ''{invalid json''
   \<and> extracted_value example_runtime ''{invalid json'' = None
   \<and> determineRoute example_runtime (vector_object fallback_vector) defaultRules = Inr ''standard_backlog''
   \<and> classifyFeedback example_runtime (stub_ai ''{invalid json'') example_feedback defaultRules =
             Inr \<lparr> classification =
                     JObj [''feedback_id'' \<mapsto> JStr ''gh-005'',
                           ''urgency'' \<mapsto> JNum (Finite 3),
                           ''sentiment'' \<mapsto> JNum (Finite 0),
                           ''impact'' \<mapsto> JNum (Finite 3),
                           ''actionability'' \<mapsto> JNum (Finite 2),
                           ''route'' \<mapsto> JStr ''standard_backlog'',
                           ''confidence'' \<mapsto> JNum (Finite (3 / 10)),
                           ''reasoning'' \<mapsto>
                             JStr ''Failed to parse AI response, using conservative defaults''],
                   signals = [] \<rparr>
   \<and> stub_ai json_no_classification ''@cf/meta/llama-3.1-70b-instruct''
       (classification_messages example_feedback defaultRules) = Inr json_no_classification
   \<and> extracted_value example_runtime json_no_classification = Some value_no_classification
   \<and> \<not> has_numeric_urgency value_no_classification
   \<and> classifyFeedback example_runtime (stub_ai json_no_classification) example_feedback defaultRules =
             Inr \<lparr> classification =
                     JObj [''feedback_id'' \<mapsto> JStr ''gh-005'',
                           ''urgency'' \<mapsto> JNum (Finite 3),
                           ''sentiment'' \<mapsto> JNum (Finite 0),
                           ''impact'' \<mapsto> JNum (Finite 3),
                           ''actionability'' \<mapsto> JNum (Finite 2),
                           ''route'' \<mapsto> JStr ''standard_backlog'',
                           ''confidence'' \<mapsto> JNum (Finite (3 / 10)),
                           ''reasoning'' \<mapsto>
                             JStr ''Failed to parse AI response, using conservative defaults''],
                   signals = [] \<rparr>"
proof -
  have a: "stub_ai ''{invalid json'' ''@cf/meta/llama-3.1-70b-instruct''
       (classification_messages example_feedback defaultRules) = Inr ''{invalid json''"
    "stub_ai json_no_classification ''@cf/meta/llama-3.1-70b-instruct''
       (classification_messages example_feedback defaultRules) = Inr json_no_classification"
    by (simp_all add: stub_ai_def)
  have b: "extracted_value example_runtime ''{invalid json'' = None"
    by (simp add: extracted_value_def match_object_def)
  have c: "\<not> has_numeric_urgency value_no_classification"
    by (simp add: has_numeric_urgency_def value_no_classification_def)
  from classify_fallback [of "stub_ai ''{invalid json''" example_feedback defaultRules
      "''{invalid json''" example_runtime]
    classify_fallback [of "stub_ai json_no_classification" example_feedback defaultRules
      json_no_classification example_runtime]
    a b c extracted_examples(5)
  show ?thesis by (auto simp: example_feedback_def)
qed

text \<open>
  Claim C5. The validation step accepts a parsed value if and only if it contains a
  \<^verbatim>\<open>classification\<close> object whose \<^verbatim>\<open>urgency\<close> is a number; every other shape takes the
  fallback. Sentiment, impact and actionability are not looked at: whatever they are,
  or when they are missing, a value with a numeric urgency is accepted, and its
  \<^verbatim>\<open>classification\<close> object is what the rule engine receives: the route of the result
  is the route that the engine gives for it, and an error of the engine is the error of
  \<^verbatim>\<open>classifyFeedback\<close>.
\<close>

theorem validation_checks_urgency_only:
  assumes "extracted_value rt response = Some parsed"
  shows "(parseAIResponse_try rt response = Inr parsed \<longleftrightarrow> has_numeric_urgency parsed)
       \<and> (has_numeric_urgency parsed \<longleftrightarrow>
            (\<exists>p c n. parsed = JObj p \<and> p ''classification'' = Some (JObj c)
                      \<and> c ''urgency'' = Some (JNum n)))
       \<and> parseAIResponse rt response
            = (if has_numeric_urgency parsed then parsed else conservative_default)
       \<and> has_numeric_urgency
            (JObj (p(''classification'' \<mapsto>
               JObj ((c(''urgency'' \<mapsto> JNum n))
                       (''sentiment'' := s, ''impact'' := i, ''actionability'' := a)))))
       \<and> (has_numeric_urgency parsed \<and>
          ai ''@cf/meta/llama-3.1-70b-instruct'' (classification_messages feedback rules) = Inr response
          \<longrightarrow> classifyFeedback rt ai feedback rules = assemble_result rt feedback rules parsed
            \<and> (\<exists>c. get_prop parsed ''classification'' = Inr (JObj c)
                  \<and> (\<forall>e. determineRoute rt (JObj c) rules = Inl e
                         \<longrightarrow> classifyFeedback rt ai feedback rules = Inl e)
                  \<and> (\<forall>res. classifyFeedback rt ai feedback rules = Inr res
                         \<longrightarrow> (\<exists>route. determineRoute rt (JObj c) rules = Inr route
                                \<and> get_prop (classification res) ''route'' = Inr (JStr route)))))"
proof -
  have 1: "parseAIResponse_try rt response = Inr parsed \<longleftrightarrow> has_numeric_urgency parsed"
    using parse_try_shape parse_try_valid [OF assms] by blast
  have 3: "parseAIResponse rt response
            = (if has_numeric_urgency parsed then parsed else conservative_default)"
    using assms by (simp add: parseAIResponse_cases)
  have 4: "has_numeric_urgency
            (JObj (p(''classification'' \<mapsto>
               JObj ((c(''urgency'' \<mapsto> JNum n))
                       (''sentiment'' := s, ''impact'' := i, ''actionability'' := a)))))"
    by (simp add: has_numeric_urgency_def)
  have 5: "classifyFeedback rt ai feedback rules = assemble_result rt feedback rules parsed
            \<and> (\<exists>c. get_prop parsed ''classification'' = Inr (JObj c)
                  \<and> (\<forall>e. determineRoute rt (JObj c) rules = Inl e
                         \<longrightarrow> classifyFeedback rt ai feedback rules = Inl e)
                  \<and> (\<forall>res. classifyFeedback rt ai feedback rules = Inr res
                         \<longrightarrow> (\<exists>route. determineRoute rt (JObj c) rules = Inr route
                                \<and> get_prop (classification res) ''route'' = Inr (JStr route))))"
    if v: "has_numeric_urgency parsed"
      and a: "ai ''@cf/meta/llama-3.1-70b-instruct'' (classification_messages feedback rules) = Inr response"
  proof -
    from v obtain q d m where q: "parsed = JObj q" "q ''classification'' = Some (JObj d)"
      "d ''urgency'' = Some (JNum m)"
      unfolding has_numeric_urgency_iff by blast
    have e: "classifyFeedback rt ai feedback rules = assemble_result rt feedback rules parsed"
      using classifyFeedback_response [of ai feedback rules response rt] a 3 v by simp
    have "get_prop parsed ''classification'' = Inr (JObj d)" using q by simp
    moreover have "\<forall>e. determineRoute rt (JObj d) rules = Inl e
                         \<longrightarrow> classifyFeedback rt ai feedback rules = Inl e"
      using e q assemble_route_error [of q d rt rules _ feedback] by simp
    moreover have "\<forall>res. classifyFeedback rt ai feedback rules = Inr res
                         \<longrightarrow> (\<exists>route. determineRoute rt (JObj d) rules = Inr route
                                \<and> get_prop (classification res) ''route'' = Inr (JStr route))"
      using e q assemble_route [of q d rt feedback rules] by simp
    ultimately show ?thesis using e by blast
  qed
  show ?thesis using 1 3 4 5 has_numeric_urgency_iff [of parsed] by blast
qed

text \<open>
  Two accepted values: one whose impact is a string, whose actionability is \<^verbatim>\<open>null\<close> and
  whose sentiment is missing, and one whose impact is an object that cannot be converted
  to a number, on which the rule engine throws.
\<close>

theorem validation_checks_urgency_only_witness:
  "extracted_value example_runtime json_urgency_only = Some value_urgency_only
   \<and> has_numeric_urgency value_urgency_only
   \<and> parseAIResponse_try example_runtime json_urgency_only = Inr value_urgency_only
   \<and> stub_ai json_urgency_only ''@cf/meta/llama-3.1-70b-instruct''
        (classification_messages example_feedback defaultRules) = Inr json_urgency_only
   \<and> classifyFeedback example_runtime (stub_ai json_urgency_only) example_feedback defaultRules
       = Inr \<lparr> classification =
                 JObj [''feedback_id'' \<mapsto> JStr ''gh-005'',
                       ''urgency'' \<mapsto> JNum (Finite 4),
                       ''impact'' \<mapsto> JStr ''high'',
                       ''actionability'' \<mapsto> JNull,
                       ''route'' \<mapsto> JStr ''standard_backlog'',
                       ''confidence'' \<mapsto> JUndefined,
                       ''reasoning'' \<mapsto> JUndefined],
               signals = [] \<rparr>
   \<and> extracted_value example_runtime json_unconvertible = Some value_unconvertible
   \<and> has_numeric_urgency value_unconvertible
   \<and> stub_ai json_unconvertible ''@cf/meta/llama-3.1-70b-instruct''
        (classification_messages example_feedback defaultRules) = Inr json_unconvertible
   \<and> classifyFeedback example_runtime (stub_ai json_unconvertible) example_feedback defaultRules
       = Inl TypeError"
proof -
  have v: "has_numeric_urgency value_urgency_only" "has_numeric_urgency value_unconvertible"
    by (simp_all add: has_numeric_urgency_def value_urgency_only_def value_unconvertible_def)
  have a: "stub_ai json_urgency_only ''@cf/meta/llama-3.1-70b-instruct''
        (classification_messages example_feedback defaultRules) = Inr json_urgency_only"
    "stub_ai json_unconvertible ''@cf/meta/llama-3.1-70b-instruct''
        (classification_messages example_feedback defaultRules) = Inr json_unconvertible"
    by (simp_all add: stub_ai_def)
  have r1: "assemble_result example_runtime example_feedback defaultRules value_urgency_only
       = Inr \<lparr> classification =
                 JObj [''feedback_id'' \<mapsto> JStr ''gh-005'',
                       ''urgency'' \<mapsto> JNum (Finite 4),
                       ''impact'' \<mapsto> JStr ''high'',
                       ''actionability'' \<mapsto> JNull,
                       ''route'' \<mapsto> JStr ''standard_backlog'',
                       ''confidence'' \<mapsto> JUndefined,
                       ''reasoning'' \<mapsto> JUndefined],
               signals = [] \<rparr>"
    by (simp add: assemble_result_def value_urgency_only_def determineRoute_def js_ge_def js_le_def
        js_and_def defaultRules_def ToNumber_other_examples example_feedback_def)
  have r2: "assemble_result example_runtime example_feedback defaultRules value_unconvertible
       = Inl TypeError"
    by (simp add: assemble_result_def value_unconvertible_def determineRoute_def js_ge_def js_le_def
        js_and_def defaultRules_def ToNumber_other_examples)
  note t1 = validation_checks_urgency_only [OF extracted_examples(4),
      of Map.empty Map.empty "Finite 4" None None None
         "stub_ai json_urgency_only" example_feedback defaultRules]
  note t2 = validation_checks_urgency_only [OF extracted_examples(6),
      of Map.empty Map.empty "Finite 4" None None None
         "stub_ai json_unconvertible" example_feedback defaultRules]
  from t1 v a have "parseAIResponse_try example_runtime json_urgency_only = Inr value_urgency_only"
    "classifyFeedback example_runtime (stub_ai json_urgency_only) example_feedback defaultRules
       = assemble_result example_runtime example_feedback defaultRules value_urgency_only"
    by blast+
  moreover from t2 v a have
    "classifyFeedback example_runtime (stub_ai json_unconvertible) example_feedback defaultRules
       = assemble_result example_runtime example_feedback defaultRules value_unconvertible"
    by blast
  ultimately show ?thesis
    using v a r1 r2 extracted_examples(4,6) by simp
qed

text \<open>
  Claim C6. When the call of the model fails, \<^verbatim>\<open>classifyFeedback\<close> fails with the same
  error and substitutes nothing. The conservative default, like every other result, is
  returned only after a response text has been obtained.
\<close>

theorem classify_propagates_invocation_failure:
  "(ai ''@cf/meta/llama-3.1-70b-instruct'' (classification_messages feedback rules) = Inl e
      \<longrightarrow> classifyFeedback rt ai feedback rules = Inl e)
   \<and> classifyFeedback rt ai feedback rules =
       (case ai ''@cf/meta/llama-3.1-70b-instruct'' (classification_messages feedback rules) of
          Inl e' \<Rightarrow> Inl e'
        | Inr response \<Rightarrow> assemble_result rt feedback rules (parseAIResponse rt response))"
  by (cases "ai ''@cf/meta/llama-3.1-70b-instruct'' (classification_messages feedback rules)")
     (simp_all add: classifyFeedback_rejected classifyFeedback_response)

text \<open>A call that times out, and a call that answers.\<close>

theorem classify_propagates_invocation_failure_witness:
  "failing_ai (Rejected ''timeout'') ''@cf/meta/llama-3.1-70b-instruct''
       (classification_messages example_feedback defaultRules) = Inl (Rejected ''timeout'')
   \<and> classifyFeedback example_runtime (failing_ai (Rejected ''timeout'')) example_feedback defaultRules
       = Inl (Rejected ''timeout'')"
  using classify_propagates_invocation_failure
      [of "failing_ai (Rejected ''timeout'')" example_feedback defaultRules "Rejected ''timeout''"
         example_runtime]
  by (simp add: failing_ai_def)

text \<open>
  Claim C9. \<^verbatim>\<open>classifyFeedback\<close> is deterministic: for the same feedback item and the
  same rule configuration, two model bindings that return the same response text give the
  same result, classification and signals. The method reads no clock, no random source
  and no state besides its arguments, so the binding is the only thing that can differ
  between two calls.
\<close>

theorem classify_deterministic:
  assumes "ai1 ''@cf/meta/llama-3.1-70b-instruct'' (classification_messages feedback rules) = Inr response"
    and "ai2 ''@cf/meta/llama-3.1-70b-instruct'' (classification_messages feedback rules) = Inr response"
  shows "classifyFeedback rt ai1 feedback rules = classifyFeedback rt ai2 feedback rules"
  using classifyFeedback_response [of ai1 feedback rules response rt]
    classifyFeedback_response [of ai2 feedback rules response rt] assms
  by simp

text \<open>Two different bindings that give the same answer to the classification call.\<close>

theorem classify_deterministic_witness:
  "stub_ai response_round_trip ''@cf/meta/llama-3.1-70b-instruct''
       (classification_messages example_feedback defaultRules) = Inr response_round_trip
   \<and> (\<lambda>model messages. if model = ''@cf/meta/llama-3.1-70b-instruct''
                          then Inr response_round_trip else Inl (Rejected ''no such model''))
        ''@cf/meta/llama-3.1-70b-instruct''
        (classification_messages example_feedback defaultRules) = Inr response_round_trip
   \<and> classifyFeedback example_runtime (stub_ai response_round_trip) example_feedback defaultRules
       = classifyFeedback example_runtime
           (\<lambda>model messages. if model = ''@cf/meta/llama-3.1-70b-instruct''
                          then Inr response_round_trip else Inl (Rejected ''no such model''))
           example_feedback defaultRules"
  using classify_deterministic
      [of "stub_ai response_round_trip" example_feedback defaultRules response_round_trip
          "\<lambda>model messages. if model = ''@cf/meta/llama-3.1-70b-instruct''
                          then Inr response_round_trip else Inl (Rejected ''no such model'')"
          example_runtime]
  by (simp add: stub_ai_def)

text \<open>
  Claim C3. For a response whose extracted value contains the classification urgency 5,
  sentiment -2, impact 5, actionability 3, two signal objects, confidence 0.9 and
  reasoning \<^verbatim>\<open>text\<close>, the claim asks for these four values, this confidence, this
  reasoning and the route of the rule engine on the classification, and for the
  identifier of the input item on both signals. \<^verbatim>\<open>classifyFeedback\<close> writes
  \<^verbatim>\<open>feedback_id: feedback.id\<close> into each signal and spreads the parsed signal after it, so
  a \<^verbatim>\<open>feedback_id\<close> that the parsed signal has of its own replaces the stamp. The response
  below meets the conditions of the claim and its first signal object has such a key: the
  classification returned is the one claimed, the first signal returned carries
  \<^verbatim>\<open>gh-999\<close>, and the input item is \<^verbatim>\<open>gh-005\<close>.
\<close>

theorem classify_signal_stamp_overridden:
  "extracted_value example_runtime response_signal_id = Some value_signal_id
   \<and> classifyFeedback example_runtime (stub_ai response_signal_id)
         example_feedback defaultRules =
       Inr \<lparr> classification =
               JObj [''feedback_id'' \<mapsto> JStr ''gh-005'',
                     ''urgency'' \<mapsto> JNum (Finite 5),
                     ''sentiment'' \<mapsto> JNum (Finite (- 2)),
                     ''impact'' \<mapsto> JNum (Finite 5),
                     ''actionability'' \<mapsto> JNum (Finite 3),
                     ''route'' \<mapsto> JStr ''immediate_engineering,trust_risk'',
                     ''confidence'' \<mapsto> JNum (Finite (9 / 10)),
                     ''reasoning'' \<mapsto> JStr ''text''],
             signals =
               [JObj [''feedback_id'' \<mapsto> JStr ''gh-999'',
                      ''signal_type'' \<mapsto> JStr ''feature_area'',
                      ''signal_value'' \<mapsto> JStr ''tunnels'',
                      ''confidence'' \<mapsto> JNum (Finite (8 / 10))],
                JObj [''feedback_id'' \<mapsto> JStr ''gh-005'',
                      ''signal_type'' \<mapsto> JStr ''issue_category'',
                      ''signal_value'' \<mapsto> JStr ''bug'',
                      ''confidence'' \<mapsto> JNum (Finite (7 / 10))]] \<rparr>
   \<and> id' example_feedback = ''gh-005''
   \<and> JStr ''gh-999'' \<noteq> JStr (id' example_feedback)"
proof -
  have "parseAIResponse example_runtime response_signal_id = value_signal_id"
    by (simp add: parseAIResponse_cases extracted_examples(3))
       (simp add: has_numeric_urgency_def value_signal_id_def)
  then have "classifyFeedback example_runtime (stub_ai response_signal_id)
         example_feedback defaultRules
       = assemble_result example_runtime example_feedback defaultRules value_signal_id"
    by (simp add: classifyFeedback_def stub_ai_def)
  then show ?thesis
    by (simp add: extracted_examples(3) value_signal_id_def assemble_result_def route_5_m2_5_3
        example_feedback_def)
       (auto simp: fun_eq_iff map_add_def)
qed

text \<open>
  Claim C10. The parsed fields are spread after the stamped \<^verbatim>\<open>feedback_id\<close>. So when the
  parsed \<^verbatim>\<open>classification\<close> object has a \<^verbatim>\<open>feedback_id\<close> key of its own, the
  classification returned carries that value and not the identifier of the input item,
  and the same holds for every parsed signal object; the identifier of the input item is
  used only when the parsed object has no such key.
\<close>

theorem model_supplied_feedback_id_wins:
  assumes "ai ''@cf/meta/llama-3.1-70b-instruct'' (classification_messages feedback rules) = Inr response"
    and "extracted_value rt response = Some (JObj p)"
    and "p ''classification'' = Some (JObj c)"
    and "c ''urgency'' = Some (JNum n)"
    and "determineRoute rt (JObj c) rules = Inr route"
    and "p ''signals'' = Some (JArr xs)"
  shows "\<exists>res. classifyFeedback rt ai feedback rules = Inr res
         \<and> get_prop (classification res) ''feedback_id''
             = Inr (case c ''feedback_id'' of Some v \<Rightarrow> v | None \<Rightarrow> JStr (id' feedback))
         \<and> length (signals res) = length xs
         \<and> (\<forall>i < length xs. \<forall>s. xs ! i = JObj s \<longrightarrow>
               get_prop (signals res ! i) ''feedback_id''
                 = Inr (case s ''feedback_id'' of Some v \<Rightarrow> v | None \<Rightarrow> JStr (id' feedback)))"
proof -
  have "classifyFeedback rt ai feedback rules = assemble_result rt feedback rules (JObj p)"
    using classifyFeedback_response [of ai feedback rules response rt] assms(1)
      parse_accepts [OF assms(2,3,4)] by simp
  then show ?thesis
    using assemble_valid [OF assms(3,5,6), of feedback]
    by (simp add: stamped_feedback_id)
qed

text \<open>
  A response whose classification and first signal name the item \<^verbatim>\<open>gh-999\<close>, classified for
  the item \<^verbatim>\<open>gh-005\<close>.
\<close>

theorem model_supplied_feedback_id_wins_witness:
  "stub_ai response_own_id ''@cf/meta/llama-3.1-70b-instruct''
       (classification_messages example_feedback defaultRules) = Inr response_own_id
   \<and> extracted_value example_runtime response_own_id = Some value_own_id
   \<and> (\<exists>res. classifyFeedback example_runtime (stub_ai response_own_id) example_feedback defaultRules
               = Inr res
         \<and> get_prop (classification res) ''feedback_id'' = Inr (JStr ''gh-999'')
         \<and> length (signals res) = 2
         \<and> get_prop (signals res ! 0) ''feedback_id'' = Inr (JStr ''gh-999'')
         \<and> get_prop (signals res ! 1) ''feedback_id'' = Inr (JStr ''gh-005''))"
proof -
  have a: "stub_ai response_own_id ''@cf/meta/llama-3.1-70b-instruct''
       (classification_messages example_feedback defaultRules) = Inr response_own_id"
    by (simp add: stub_ai_def)
  have r: "determineRoute example_runtime
       (JObj [''feedback_id'' \<mapsto> JStr ''gh-999'',
                   ''urgency'' \<mapsto> JNum (Finite 5),
                   ''sentiment'' \<mapsto> JNum (Finite (- 2)),
                   ''impact'' \<mapsto> JNum (Finite 5),
                   ''actionability'' \<mapsto> JNum (Finite 3)]) defaultRules
      = Inr ''immediate_engineering,trust_risk''"
    by (simp add: determineRoute_def js_ge_def js_le_def js_and_def defaultRules_def)
  from model_supplied_feedback_id_wins [of "stub_ai response_own_id" example_feedback defaultRules
      response_own_id example_runtime
      "[''classification'' \<mapsto>
             JObj [''feedback_id'' \<mapsto> JStr ''gh-999'',
                   ''urgency'' \<mapsto> JNum (Finite 5),
                   ''sentiment'' \<mapsto> JNum (Finite (- 2)),
                   ''impact'' \<mapsto> JNum (Finite 5),
                   ''actionability'' \<mapsto> JNum (Finite 3)],
           ''signals'' \<mapsto>
             JArr [JObj [''feedback_id'' \<mapsto> JStr ''gh-999'',
                         ''signal_type'' \<mapsto> JStr ''feature_area'',
                         ''signal_value'' \<mapsto> JStr ''tunnels''],
                   JObj [''signal_type'' \<mapsto> JStr ''issue_category'',
                         ''signal_value'' \<mapsto> JStr ''bug'']],
           ''confidence'' \<mapsto> JNum (Finite (9 / 10)),
           ''reasoning'' \<mapsto> JStr ''text'']"
      "[''feedback_id'' \<mapsto> JStr ''gh-999'',
                   ''urgency'' \<mapsto> JNum (Finite 5),
                   ''sentiment'' \<mapsto> JNum (Finite (- 2)),
                   ''impact'' \<mapsto> JNum (Finite 5),
                   ''actionability'' \<mapsto> JNum (Finite 3)]"
      "Finite 5" "''immediate_engineering,trust_risk''"
      "[JObj [''feedback_id'' \<mapsto> JStr ''gh-999'',
                         ''signal_type'' \<mapsto> JStr ''feature_area'',
                         ''signal_value'' \<mapsto> JStr ''tunnels''],
                   JObj [''signal_type'' \<mapsto> JStr ''issue_category'',
                         ''signal_value'' \<mapsto> JStr ''bug'']]"]
  show ?thesis
    using a r extracted_examples(2)
    by (auto simp: value_own_id_def example_feedback_def less_Suc_eq numeral_2_eq_2)
qed

text \<open>
  Claim C8. \<^verbatim>\<open>extractThemes\<close> builds its prompt from the first 20 items at most and from
  the first 200 characters at most of the content of each. It parses the response by
  matching \<^verbatim>\<open>[...]\<close>, from the first \<^verbatim>\<open>[\<close> to the last \<^verbatim>\<open>]\<close>. When nothing matches or
  the match does not parse it returns the empty list and throws nothing.
\<close>

theorem extractThemes_bounded_and_total:
  "themes_prompt rt feedbackItems limit
     = themes_prompt rt (map cut_content (take 20 feedbackItems)) limit
   \<and> extractThemes rt ai feedbackItems limit_arg
     = extractThemes rt ai (map cut_content (take 20 feedbackItems)) limit_arg
   \<and> match_array response = first_to_last (CHR ''['') (CHR '']'') response
   \<and> (feedbackItems \<noteq> [] \<and>
      ai ''@cf/meta/llama-3.1-8b-instruct'' (themes_messages rt feedbackItems limit_arg) = Inr response
      \<longrightarrow> extractThemes rt ai feedbackItems limit_arg =
            Inr (case match_array response of
                   None \<Rightarrow> JArr []
                 | Some m \<Rightarrow> (case JSON_parse rt m of None \<Rightarrow> JArr [] | Some themes \<Rightarrow> themes)))"
  using extractThemes_response [of feedbackItems ai rt limit_arg response]
  by (simp add: themes_prompt_cut extractThemes_cut match_array_def regex_match_first_to_last)

text \<open>
  Three responses for one item: a JSON array with prose around it, brackets around
  something that is no JSON, and no brackets.
\<close>

theorem extractThemes_bounded_and_total_witness:
  "[example_feedback] \<noteq> []
   \<and> stub_ai response_themes ''@cf/meta/llama-3.1-8b-instruct''
        (themes_messages example_runtime [example_feedback] None) = Inr response_themes
   \<and> extractThemes example_runtime (stub_ai response_themes) [example_feedback] None
        = Inr (JArr [JStr ''installation'', JStr ''documentation''])
   \<and> stub_ai ''I found: [installation, docs]'' ''@cf/meta/llama-3.1-8b-instruct''
        (themes_messages example_runtime [example_feedback] None) = Inr ''I found: [installation, docs]''
   \<and> extractThemes example_runtime (stub_ai ''I found: [installation, docs]'') [example_feedback] None
        = Inr (JArr [])
   \<and> extractThemes example_runtime (stub_ai ''No themes.'') [example_feedback] None = Inr (JArr [])"
proof -
  have m: "match_array ''I found: [installation, docs]'' = Some ''[installation, docs]''"
    "match_array ''No themes.'' = None"
    by (simp_all add: match_array_def)
  have p: "JSON_parse example_runtime ''[installation, docs]'' = None"
    by (simp add: example_runtime_def json_round_trip_def json_own_id_def json_signal_id_def
      json_urgency_only_def json_no_classification_def json_unconvertible_def json_themes_def)
  note t = extractThemes_bounded_and_total [THEN conjunct2, THEN conjunct2, THEN conjunct2]
  from t [of "[example_feedback]" "stub_ai response_themes" example_runtime None response_themes]
    t [of "[example_feedback]" "stub_ai ''I found: [installation, docs]''" example_runtime
        None "''I found: [installation, docs]''"]
    t [of "[example_feedback]" "stub_ai ''No themes.''" example_runtime None "''No themes.''"]
  show ?thesis
    by (simp add: stub_ai_def match_examples example_parse_defs value_themes_def m p)
qed

end
